theory Spec2Isabelle
  imports Complex_Main
begin

section \<open>Numbers and arrays as the JavaScript sources use them\<close>

text \<open>
  The sources compute with JavaScript numbers. Finite numbers are modelled as exact
  rationals (rounding and the sign of zero are left out); the three special values are
  kept, because the code produces them from finite inputs: a division by zero gives an
  infinity or \<open>NaN\<close>, and reading an array past its end, or a field that was never
  assigned, gives \<open>undefined\<close>, which every arithmetic operation and comparison of
  the sources treats as \<open>NaN\<close>. So \<open>NaN\<close> also stands for \<open>undefined\<close> wherever a
  number is expected.
\<close>

datatype jsnum = Num rat | PInf | NInf | NaN

fun jneg :: "jsnum \<Rightarrow> jsnum" where
  "jneg (Num a) = Num (- a)"
| "jneg PInf = NInf"
| "jneg NInf = PInf"
| "jneg NaN = NaN"

fun jadd :: "jsnum \<Rightarrow> jsnum \<Rightarrow> jsnum" where
  "jadd (Num a) (Num b) = Num (a + b)"
| "jadd NaN _ = NaN"
| "jadd _ NaN = NaN"
| "jadd PInf NInf = NaN"
| "jadd NInf PInf = NaN"
| "jadd PInf _ = PInf"
| "jadd NInf _ = NInf"
| "jadd _ PInf = PInf"
| "jadd _ NInf = NInf"

definition jsub :: "jsnum \<Rightarrow> jsnum \<Rightarrow> jsnum" where
  "jsub a b = jadd a (jneg b)"

text \<open>The sign of a number: 1, 0 or -1; only used on values that are not \<open>NaN\<close>.\<close>

fun jsign :: "jsnum \<Rightarrow> int" where
  "jsign (Num a) = (if a < 0 then - 1 else if a = 0 then 0 else 1)"
| "jsign PInf = 1"
| "jsign NInf = - 1"
| "jsign NaN = 0"

definition jinf :: "int \<Rightarrow> jsnum" where
  "jinf s = (if s < 0 then NInf else if s = 0 then NaN else PInf)"

fun jmul :: "jsnum \<Rightarrow> jsnum \<Rightarrow> jsnum" where
  "jmul (Num a) (Num b) = Num (a * b)"
| "jmul NaN _ = NaN"
| "jmul _ NaN = NaN"
| "jmul a b = jinf (jsign a * jsign b)"

fun jdiv :: "jsnum \<Rightarrow> jsnum \<Rightarrow> jsnum" where
  "jdiv (Num a) (Num b) = (if b = 0 then jinf (jsign (Num a)) else Num (a / b))"
| "jdiv NaN _ = NaN"
| "jdiv _ NaN = NaN"
| "jdiv (Num a) _ = Num 0"
| "jdiv a (Num b) = jinf (jsign a * (if b < 0 then - 1 else 1))"
| "jdiv _ _ = NaN"

text \<open>\<open>a < b\<close>; every comparison with \<open>NaN\<close> is false.\<close>

fun jlt :: "jsnum \<Rightarrow> jsnum \<Rightarrow> bool" where
  "jlt (Num a) (Num b) = (a < b)"
| "jlt NaN _ = False"
| "jlt _ NaN = False"
| "jlt _ NInf = False"
| "jlt PInf _ = False"
| "jlt NInf _ = True"
| "jlt _ PInf = True"

definition jgt :: "jsnum \<Rightarrow> jsnum \<Rightarrow> bool" where
  "jgt a b = jlt b a"

text \<open>\<open>a === b\<close> on numbers: \<open>NaN\<close> equals nothing.\<close>

definition jeq :: "jsnum \<Rightarrow> jsnum \<Rightarrow> bool" where
  "jeq a b = (a \<noteq> NaN \<and> a = b)"

definition jle :: "jsnum \<Rightarrow> jsnum \<Rightarrow> bool" where
  "jle a b = (jlt a b \<or> jeq a b)"

definition jge :: "jsnum \<Rightarrow> jsnum \<Rightarrow> bool" where
  "jge a b = jle b a"

text \<open>\<open>Math.max\<close> and \<open>Math.min\<close> of two numbers: \<open>NaN\<close> if either is.\<close>

definition jmax :: "jsnum \<Rightarrow> jsnum \<Rightarrow> jsnum" where
  "jmax a b = (if a = NaN \<or> b = NaN then NaN else if jlt a b then b else a)"

definition jmin :: "jsnum \<Rightarrow> jsnum \<Rightarrow> jsnum" where
  "jmin a b = (if a = NaN \<or> b = NaN then NaN else if jlt b a then b else a)"

fun jceil :: "jsnum \<Rightarrow> jsnum" where
  "jceil (Num a) = Num (of_int \<lceil>a\<rceil>)"
| "jceil x = x"

text \<open>Truthiness of a number: \<open>0\<close>, \<open>NaN\<close> and \<open>undefined\<close> are falsy.\<close>

fun truthy :: "jsnum \<Rightarrow> bool" where
  "truthy (Num a) = (a \<noteq> 0)"
| "truthy NaN = False"
| "truthy _ = True"

text \<open>\<open>x || 0\<close>.\<close>

definition or0 :: "jsnum \<Rightarrow> jsnum" where
  "or0 x = (if truthy x then x else Num 0)"

text \<open>
  Reading \<open>xs[i]\<close>: past the end the result is \<open>undefined\<close>. Writing \<open>xs[i] = v\<close>:
  JavaScript extends the array; the slots skipped over read as \<open>undefined\<close>.
\<close>

definition rd :: "jsnum list \<Rightarrow> nat \<Rightarrow> jsnum" where
  "rd xs i = (if i < length xs then xs ! i else NaN)"

definition store :: "jsnum list \<Rightarrow> nat \<Rightarrow> jsnum \<Rightarrow> jsnum list" where
  "store xs i v = (if i < length xs then xs[i := v] else xs @ replicate (i - length xs) NaN @ [v])"

text \<open>
  \<open>xs.slice(0).sort((a, b) => a - b)\<close>, as a sort by insertion: an element goes in front
  of the first one the comparator puts it before. On finite numbers this is the ascending
  order; with other entries the order a JavaScript engine produces is its own choice.
\<close>

fun js_insert :: "jsnum \<Rightarrow> jsnum list \<Rightarrow> jsnum list" where
  "js_insert x [] = [x]"
| "js_insert x (y # ys) = (if jlt (jsub x y) (Num 0) then x # y # ys else y # js_insert x ys)"

definition js_sort :: "jsnum list \<Rightarrow> jsnum list" where
  "js_sort xs = foldr js_insert xs []"

text \<open>\<open>xs.reduce((a, b) => a + b, 0)\<close>.\<close>

definition js_sum :: "jsnum list \<Rightarrow> jsnum" where
  "js_sum xs = fold (\<lambda>b a. jadd a b) xs (Num 0)"


section \<open>The height-table list (the two unnamed source files)\<close>

text \<open>
  Two versions of one class \<open>HyperList\<close>: the earlier one reads forward only and keeps
  the total extent up to date by differences; the later one adds the reverse
  orientation. Their functions are modelled side by side over one state record; where
  both files hold a function of the same name, the earlier file's carries the suffix
  \<open>0\<close>. Styling, CSS classes, the scroller element, the \<open>afterRender\<close> and
  \<open>applyPatch\<close> callbacks and the scheduling of the next frame belong to the host and
  are left out.
\<close>

datatype error =
    TypeError | RangeError | ReferenceError
  | InvalidContainer | MissingGenerate | MissingItemCount | MissingItemHeight
  | NotANode nat
  | MissingRowLength | FirstRowNotFound | LastRowNotFound | NotFoundError
  | OutsideModel

text \<open>
  A configuration value: a number, an array of numbers, or anything else (\<open>Undefined\<close>
  stands for \<open>undefined\<close> and \<open>null\<close>, \<open>Other\<close> for every other value).
\<close>

datatype jsval = Undefined | Number jsnum | Array "jsnum list" | Other

text \<open>\<open>isNumber(x)\<close>: \<open>typeof x == 'number' && !isNaN(x)\<close>.\<close>

fun isNumber :: "jsval \<Rightarrow> bool" where
  "isNumber (Number x) = (x \<noteq> NaN)"
| "isNumber _ = False"

text \<open>
  What \<open>generate(i)\<close> returns: \<open>null\<close> or \<open>undefined\<close>, or a value with its own node
  handle (when it is an element node itself), its \<open>height\<close> property and its
  \<open>element\<close> property (a node handle when that is an element node).
\<close>

datatype gen_item = NoItem | Item (self_node: "nat option") (height: jsval) (element_of: "nat option")

text \<open>The container element: the properties the code reads from it.\<close>

record elem =
  nodeType :: nat
  clientSize :: rat
  scrollTop :: rat

text \<open>
  \<open>this._config\<close>. \<open>generate\<close> and \<open>overrideScrollPosition\<close> are \<open>None\<close> when the
  property is not a function; \<open>useFragment\<close> is \<open>None\<close> when it is not a boolean.
\<close>

record config =
  generate :: "(nat \<Rightarrow> gen_item) option"
  itemCount :: jsval
  itemHeight :: jsval
  reverse :: bool
  useFragment :: "bool option"
  overrideScrollPosition :: "rat option"

text \<open>The \<open>newConfig\<close> argument: \<open>None\<close> for a key the object does not have.\<close>

record new_config =
  n_generate :: "(nat \<Rightarrow> gen_item) option option"
  n_itemCount :: "jsval option"
  n_itemHeight :: "jsval option"
  n_reverse :: "bool option"
  n_useFragment :: "bool option option"
  n_overrideScrollPosition :: "rat option option"

text \<open>
  The instance. \<open>itemHeights\<close> and \<open>itemPositions\<close> are \<open>None\<close> while the field is
  \<open>undefined\<close>; \<open>lastRepaint\<close> is \<open>None\<close> while it is \<open>null\<close>; \<open>lastFrom\<close> is \<open>None\<close>
  while \<open>undefined\<close>; the numeric fields are \<open>NaN\<close> while \<open>undefined\<close>.
  \<open>pendingScroll\<close> is the scroll position the reverse orientation asks the next frame to
  set; \<open>fragment\<close> holds the rows of the last chunk built, each with its node handle and
  the offset written to its style.
\<close>

record hyperlist =
  config :: config
  element :: "elem option"
  itemHeights :: "jsnum list option"
  itemPositions :: "jsnum list option"
  scrollHeight :: jsnum
  lastRepaint :: "rat option"
  lastFrom :: "nat option"
  containerSize :: jsnum
  screenItemsLen :: jsnum
  cachedItemsLen :: jsnum
  averageHeight :: jsnum
  pendingScroll :: "jsnum option"
  fragment :: "(nat \<times> jsnum) list"

text \<open>
  The row count as a loop bound. The functions below are stated for the counts that
  \<open>refresh\<close> lets through in this model, the natural numbers.
\<close>

definition is_count :: "jsval \<Rightarrow> bool" where
  "is_count v = (case v of Number (Num q) \<Rightarrow> 0 \<le> q \<and> of_int \<lfloor>q\<rfloor> = q \<and> q < 2 ^ 32 | _ \<Rightarrow> False)"

definition count_of :: "jsval \<Rightarrow> nat" where
  "count_of v = (case v of Number (Num q) \<Rightarrow> nat \<lfloor>q\<rfloor> | _ \<Rightarrow> 0)"

definition the_new :: "hyperlist" where
  "the_new = \<lparr> config = \<lparr> generate = None, itemCount = Undefined, itemHeight = Undefined,
       reverse = False, useFragment = None, overrideScrollPosition = None \<rparr>,
     element = None, itemHeights = None, itemPositions = None, scrollHeight = NaN,
     lastRepaint = None, lastFrom = None, containerSize = NaN, screenItemsLen = NaN,
     cachedItemsLen = NaN, averageHeight = NaN, pendingScroll = None, fragment = [] \<rparr>"

subsection \<open>\<open>_getFrom\<close> and \<open>_getReverseFrom\<close>\<close>

text \<open>
  \<open>while (this._itemPositions[i] < scrollTop) i++\<close>, from \<open>i = 0\<close>. The loop also
  returns the indices it read. It ends at the latest on the read one past the end of
  the table, which gives \<open>undefined\<close>.
\<close>

function getFrom_loop :: "jsnum list \<Rightarrow> jsnum \<Rightarrow> nat \<Rightarrow> nat list \<Rightarrow> nat \<times> nat list" where
  "getFrom_loop ps st i reads =
     (if jlt (rd ps i) st then getFrom_loop ps st (Suc i) (reads @ [i]) else (i, reads @ [i]))"
  by pat_completeness auto
termination
proof (relation "measure (\<lambda>(ps, st, i, reads). length ps - i)")
  show "wf (measure (\<lambda>(ps, st, i, reads). length ps - i))"
    by simp
next
  fix ps :: "jsnum list" and st :: jsnum and i :: nat and reads :: "nat list"
  assume a: "jlt (rd ps i) st"
  have "i < length ps"
  proof (rule ccontr)
    assume "\<not> i < length ps"
    then have "rd ps i = NaN"
      by (simp add: rd_def)
    with a show False
      by simp
  qed
  then show "((ps, st, Suc i, reads @ [i]), (ps, st, i, reads)) \<in> measure (\<lambda>(ps, st, i, reads). length ps - i)"
    by simp
qed

definition getFrom :: "jsnum list \<Rightarrow> rat \<Rightarrow> nat" where
  "getFrom ps st = fst (getFrom_loop ps (Num st) 0 [])"

text \<open>
  \<open>let i = itemCount - 1; while (i > 0 && this._itemPositions[i] < scrollTop +
  this._containerSize) i--\<close>. The index is an integer: with no rows it starts at \<open>-1\<close>.
\<close>

function getReverseFrom_loop :: "jsnum list \<Rightarrow> jsnum \<Rightarrow> int \<Rightarrow> nat list \<Rightarrow> int \<times> nat list" where
  "getReverseFrom_loop ps bound i reads =
     (if i > 0 then
        (if jlt (rd ps (nat i)) bound then getReverseFrom_loop ps bound (i - 1) (reads @ [nat i])
         else (i, reads @ [nat i]))
      else (i, reads))"
  by pat_completeness auto
termination
  by (relation "measure (\<lambda>(ps, bound, i, reads). nat i)") auto

definition getReverseFrom :: "nat \<Rightarrow> jsnum list \<Rightarrow> jsnum \<Rightarrow> rat \<Rightarrow> int \<times> nat list" where
  "getReverseFrom n ps cs st = getReverseFrom_loop ps (jadd (Num st) cs) (int n - 1) []"


subsection \<open>\<open>_computePositions\<close>\<close>

text \<open>
  One pass of the loop body at index \<open>i\<close>. Forward: \<open>pos[i] = heights[i - 1] +
  pos[i - 1]\<close> (at index 0, which the forward loops never visit, both reads would be at
  index \<open>-1\<close> and give \<open>undefined\<close>). Reverse: \<open>pos[0] = scrollHeight - heights[0]\<close> and
  \<open>pos[i] = pos[i - 1] - heights[i]\<close>.
\<close>

definition position_step :: "bool \<Rightarrow> jsnum \<Rightarrow> jsnum list \<Rightarrow> nat \<Rightarrow> jsnum list \<Rightarrow> jsnum list" where
  "position_step rv sh hs i ps = store ps i
     (if rv then (if i = 0 then jsub sh (rd hs 0) else jsub (rd ps (i - 1)) (rd hs i))
      else (if i = 0 then NaN else jadd (rd hs (i - 1)) (rd ps (i - 1))))"

text \<open>
  The later file: \<open>if (from < 1 && !reverse) from = 1\<close>, then the loop up to
  \<open>itemCount\<close>. Indexing an \<open>undefined\<close> table throws a \<open>TypeError\<close> on the first pass.
\<close>

definition computePositions :: "nat \<Rightarrow> hyperlist \<Rightarrow> (error \<times> hyperlist) + hyperlist" where
  "computePositions from0 s =
     (let n = count_of (itemCount (config s)); rv = reverse (config s);
          from1 = (if from0 < 1 \<and> \<not> rv then 1 else from0)
      in if from1 < n then
           (case (itemHeights s, itemPositions s) of
              (Some hs, Some ps) \<Rightarrow>
                Inr (s\<lparr>itemPositions := Some (fold (position_step rv (scrollHeight s) hs) [from1..<n] ps)\<rparr>)
            | _ \<Rightarrow> Inl (TypeError, s))
         else Inr s)"


subsection \<open>\<open>_computeScrollHeight\<close>\<close>

text \<open>
  The median of the sorted heights: \<open>itemCount % 2 === 0 ? (sorted[middle] +
  sorted[middle - 1]) / 2 : sorted[middle]\<close> with \<open>middle = Math.floor(itemCount / 2)\<close>.
\<close>

definition median :: "nat \<Rightarrow> jsnum list \<Rightarrow> jsnum" where
  "median n srt =
     (let middle = n div 2
      in if n mod 2 = 0
         then jdiv (jadd (rd srt middle) (if middle = 0 then NaN else rd srt (middle - 1))) (Num 2)
         else rd srt middle)"

text \<open>
  What both files do: sum the heights, take the median as \<open>averageHeight\<close>, read the
  container's size, set \<open>screenItemsLen = Math.ceil(containerSize / averageHeight)\<close> and
  \<open>cachedItemsLen = Math.max(cachedItemsLen || 0, screenItemsLen * 3)\<close>, and return
  the sum.
\<close>

definition computeScrollHeight0 :: "hyperlist \<Rightarrow> (error \<times> hyperlist) + (jsnum \<times> hyperlist)" where
  "computeScrollHeight0 s =
     (case itemHeights s of
        None \<Rightarrow> Inl (TypeError, s)
      | Some hs \<Rightarrow>
          (case element s of
             None \<Rightarrow> Inl (TypeError, s)
           | Some el \<Rightarrow>
               (let avg = median (count_of (itemCount (config s))) (js_sort hs);
                    cs = Num (clientSize el);
                    sil = jceil (jdiv cs avg)
                in Inr (js_sum hs,
                     s\<lparr>containerSize := cs, screenItemsLen := sil,
                       cachedItemsLen := jmax (or0 (cachedItemsLen s)) (jmul sil (Num 3)),
                       averageHeight := avg\<rparr>))))"

text \<open>The later file also asks, in reverse orientation, for a scroll to the tail.\<close>

definition computeScrollHeight :: "hyperlist \<Rightarrow> (error \<times> hyperlist) + (jsnum \<times> hyperlist)" where
  "computeScrollHeight s =
     (case computeScrollHeight0 s of
        Inl e \<Rightarrow> Inl e
      | Inr (sh, s1) \<Rightarrow>
          Inr (sh, if reverse (config s1) then s1\<lparr>pendingScroll := Some sh\<rparr> else s1))"

subsection \<open>\<open>_getRow\<close>\<close>

text \<open>
  The later file. A height the generator reports (\<open>height !== undefined &&
  isNumber(height)\<close>) is compared with the stored one; when it differs
  (\<open>height !== this._itemHeights[i]\<close>) it is stored, the positions are computed again from
  \<open>i\<close> and the total extent from the whole table. The result is the row's node handle and
  the offset written to its style.
\<close>

definition getRow :: "nat \<Rightarrow> hyperlist \<Rightarrow> (error \<times> hyperlist) + ((nat \<times> jsnum) \<times> hyperlist)" where
  "getRow i s =
     (case generate (config s) of
        None \<Rightarrow> Inl (TypeError, s)
      | Some g \<Rightarrow>
          (case g i of
             NoItem \<Rightarrow> Inl (TypeError, s)
           | Item self h el \<Rightarrow>
               (case itemHeights s of
                  None \<Rightarrow> Inl (TypeError, s)
                | Some hs \<Rightarrow>
                    (case (case h of
                             Number hn \<Rightarrow>
                               (if hn \<noteq> NaN then
                                  (if \<not> jeq hn (rd hs i) then
                                     (case computePositions i (s\<lparr>itemHeights := Some (store hs i hn)\<rparr>) of
                                        Inl e \<Rightarrow> Inl e
                                      | Inr s1 \<Rightarrow>
                                          (case computeScrollHeight s1 of
                                             Inl e \<Rightarrow> Inl e
                                           | Inr (sh, s2) \<Rightarrow> Inr (el, s2\<lparr>scrollHeight := sh\<rparr>)))
                                   else Inr (el, s))
                                else Inr (self, s))
                           | _ \<Rightarrow> Inr (self, s)) of
                       Inl e \<Rightarrow> Inl e
                     | Inr (item, s3) \<Rightarrow>
                         (case item of
                            None \<Rightarrow> Inl (NotANode i, s3)
                          | Some node \<Rightarrow>
                              (case itemPositions s3 of
                                 None \<Rightarrow> Inl (TypeError, s3)
                               | Some ps \<Rightarrow> Inr ((node, rd ps i), s3)))))))"



subsection \<open>\<open>_renderChunk\<close>\<close>

text \<open>\<open>_getScrollPosition\<close>: the override's value when there is one, else the
  container's scroll position; the earlier file always reads the container.\<close>

definition getScrollPosition :: "hyperlist \<Rightarrow> error + rat" where
  "getScrollPosition s =
     (case overrideScrollPosition (config s) of
        Some v \<Rightarrow> Inr v
      | None \<Rightarrow> (case element s of None \<Rightarrow> Inl TypeError | Some el \<Rightarrow> Inr (scrollTop el)))"


text \<open>
  The first index of the chunk: \<open>if (from < 0 || from - this._screenItemsLen < 0) from
  = 0\<close>.
\<close>

definition chunk_from :: "jsnum \<Rightarrow> int \<Rightarrow> nat" where
  "chunk_from sil from0 =
     (if from0 < 0 \<or> jlt (jsub (Num (of_int from0)) sil) (Num 0) then 0 else nat from0)"

text \<open>
  The end of the chunk: \<open>to = from + cachedItemsLen; if (to > itemCount || to +
  cachedItemsLen > itemCount) to = itemCount\<close>.
\<close>

definition chunk_to :: "jsnum \<Rightarrow> nat \<Rightarrow> nat \<Rightarrow> jsnum" where
  "chunk_to cil n from1 =
     (let to0 = jadd (Num (of_nat from1)) cil
      in if jgt to0 (Num (of_nat n)) \<or> jgt (jadd to0 cil) (Num (of_nat n)) then Num (of_nat n) else to0)"

text \<open>
  The indices \<open>for (let i = from; i < to; i++)\<close> visits. \<open>chunk_to\<close> never gives
  \<open>+Infinity\<close>, and a comparison with \<open>NaN\<close> is false.
\<close>

definition chunk_range :: "nat \<Rightarrow> jsnum \<Rightarrow> nat list" where
  "chunk_range from1 to = (case to of Num q \<Rightarrow> [from1..<nat \<lceil>q\<rceil>] | _ \<Rightarrow> [])"

fun chunk_rows :: "(nat \<Rightarrow> hyperlist \<Rightarrow> (error \<times> hyperlist) + ((nat \<times> jsnum) \<times> hyperlist)) \<Rightarrow>
    nat list \<Rightarrow> (nat \<times> jsnum) list \<Rightarrow> hyperlist \<Rightarrow> (error \<times> hyperlist) + ((nat \<times> jsnum) list \<times> hyperlist)" where
  "chunk_rows gr [] acc s = Inr (acc, s)"
| "chunk_rows gr (i # is) acc s =
     (case gr i s of Inl e \<Rightarrow> Inl e | Inr (r, s1) \<Rightarrow> chunk_rows gr is (acc @ [r]) s1)"

text \<open>
  The part both files share, from the first index found by the search: the result is
  \<open>False\<close> for the early \<open>return false\<close> (\<open>!force && this._lastFrom === from\<close>).
\<close>

definition renderChunk_at :: "(nat \<Rightarrow> hyperlist \<Rightarrow> (error \<times> hyperlist) + ((nat \<times> jsnum) \<times> hyperlist)) \<Rightarrow>
    int \<Rightarrow> bool \<Rightarrow> hyperlist \<Rightarrow> (error \<times> hyperlist) + (bool \<times> hyperlist)" where
  "renderChunk_at gr from0 force s =
     (let from1 = chunk_from (screenItemsLen s) from0
      in if \<not> force \<and> lastFrom s = Some from1 then Inr (False, s)
         else
           (let to = chunk_to (cachedItemsLen s) (count_of (itemCount (config s))) from1
            in case chunk_rows gr (chunk_range from1 to) [] (s\<lparr>lastFrom := Some from1\<rparr>) of
                 Inl e \<Rightarrow> Inl e
               | Inr (rows, s2) \<Rightarrow> Inr (True, s2\<lparr>fragment := rows\<rparr>)))"


text \<open>
  The later file: \<open>let from = config.reverse ? this._getReverseFrom(scrollTop) :
  this._getFrom(scrollTop) - 1\<close>. With an \<open>undefined\<close> position table the reverse search
  throws only if it reads, that is with two rows or more.
\<close>

definition renderChunk :: "bool \<Rightarrow> hyperlist \<Rightarrow> (error \<times> hyperlist) + (bool \<times> hyperlist)" where
  "renderChunk force s =
     (case getScrollPosition s of
        Inl e \<Rightarrow> Inl (e, s)
      | Inr st \<Rightarrow>
          (if reverse (config s) then
             (case itemPositions s of
                None \<Rightarrow>
                  (if int (count_of (itemCount (config s))) - 1 > 0 then Inl (TypeError, s)
                   else renderChunk_at getRow (int (count_of (itemCount (config s))) - 1) force s)
              | Some ps \<Rightarrow>
                  renderChunk_at getRow
                    (fst (getReverseFrom (count_of (itemCount (config s))) ps (containerSize s) st)) force s)
           else
             (case itemPositions s of
                None \<Rightarrow> Inl (TypeError, s)
              | Some ps \<Rightarrow> renderChunk_at getRow (int (getFrom ps st) - 1) force s)))"

subsection \<open>The frame callback \<open>render\<close>\<close>




subsection \<open>\<open>refresh\<close> and the constructor\<close>

text \<open>\<open>Object.assign(config, newConfig)\<close>: every key of \<open>newConfig\<close> overwrites.\<close>

definition assign :: "config \<Rightarrow> new_config \<Rightarrow> config" where
  "assign c nc =
     \<lparr> generate = (case n_generate nc of None \<Rightarrow> generate c | Some v \<Rightarrow> v),
       itemCount = (case n_itemCount nc of None \<Rightarrow> itemCount c | Some v \<Rightarrow> v),
       itemHeight = (case n_itemHeight nc of None \<Rightarrow> itemHeight c | Some v \<Rightarrow> v),
       reverse = (case n_reverse nc of None \<Rightarrow> reverse c | Some v \<Rightarrow> v),
       useFragment = (case n_useFragment nc of None \<Rightarrow> useFragment c | Some v \<Rightarrow> v),
       overrideScrollPosition =
         (case n_overrideScrollPosition nc of None \<Rightarrow> overrideScrollPosition c | Some v \<Rightarrow> v) \<rparr>"

text \<open>
  The merge, followed by \<open>if (typeof config.useFragment != 'boolean') config.useFragment
  = true\<close>.
\<close>

definition merge_options :: "config \<Rightarrow> new_config \<Rightarrow> config" where
  "merge_options c nc =
     (let cfg1 = assign c nc
      in if useFragment cfg1 = None then cfg1\<lparr>useFragment := Some True\<rparr> else cfg1)"

text \<open>\<open>x != null\<close> for a key of \<open>newConfig\<close>.\<close>

definition not_null :: "jsval option \<Rightarrow> bool" where
  "not_null v = (v \<noteq> None \<and> v \<noteq> Some Undefined)"

text \<open>
  The container argument: \<open>if (element) { if (element.nodeType != 1) throw ...;
  this._element = element }\<close>.
\<close>

definition refresh_element :: "elem option \<Rightarrow> hyperlist \<Rightarrow> (error \<times> hyperlist) + hyperlist" where
  "refresh_element el s =
     (case el of
        None \<Rightarrow> Inr s
      | Some e \<Rightarrow> if nodeType e \<noteq> 1 then Inl (InvalidContainer, s) else Inr (s\<lparr>element := Some e\<rparr>))"

text \<open>
  The options: merged into \<open>this._config\<close> first, checked afterwards.
  \<open>Array(itemCount)\<close> throws a \<open>RangeError\<close> unless the count is a natural number below
  \<open>2\<^sup>3\<^sup>2\<close>.
\<close>

definition refresh_config :: "new_config option \<Rightarrow> hyperlist \<Rightarrow> (error \<times> hyperlist) + hyperlist" where
  "refresh_config nc s =
     (case nc of
        None \<Rightarrow> Inr s
      | Some c \<Rightarrow>
          (let cfg2 = merge_options (config s) c;
               s1 = s\<lparr>config := cfg2\<rparr>
           in if (case generate cfg2 of None \<Rightarrow> True | Some g \<Rightarrow> False) then Inl (MissingGenerate, s1)
              else if \<not> isNumber (itemCount cfg2) then Inl (MissingItemCount, s1)
              else if not_null (n_itemCount c) \<or> not_null (n_itemHeight c) then
                (case itemHeight cfg2 of
                   Number h \<Rightarrow>
                     (if h = NaN then Inl (MissingItemHeight, s1)
                      else if is_count (itemCount cfg2)
                      then Inr (s1\<lparr>itemHeights := Some (replicate (count_of (itemCount cfg2)) h)\<rparr>)
                      else Inl (RangeError, s1))
                 | Array hs \<Rightarrow> Inr (s1\<lparr>itemHeights := Some hs\<rparr>)
                 | _ \<Rightarrow> Inl (MissingItemHeight, s1))
              else Inr s1))"

text \<open>
  The rest of the later file's \<open>refresh\<close>: the total extent, the position table (created
  once, filled with zeros), the positions from index 0, and a chunk when the list has an
  extent. A row count that passed \<open>isNumber\<close> without being a natural number is outside
  this model.
\<close>

definition refresh_layout :: "hyperlist \<Rightarrow> (error \<times> hyperlist) + hyperlist" where
  "refresh_layout s =
     (if \<not> is_count (itemCount (config s)) then Inl (OutsideModel, s)
      else if element s = None then Inl (TypeError, s)
      else
        (case computeScrollHeight s of
           Inl e \<Rightarrow> Inl e
         | Inr (sh, s1) \<Rightarrow>
             (let s2 = s1\<lparr>scrollHeight := sh\<rparr>;
                  s3 = (if itemPositions s2 = None
                        then s2\<lparr>itemPositions := Some (replicate (count_of (itemCount (config s2))) (Num 0))\<rparr>
                        else s2)
              in case computePositions 0 s3 of
                   Inl e \<Rightarrow> Inl e
                 | Inr s4 \<Rightarrow>
                     (if truthy (scrollHeight s4) then
                        (case renderChunk (lastRepaint s4 \<noteq> None) s4 of
                           Inl e \<Rightarrow> Inl e
                         | Inr (r, s5) \<Rightarrow> Inr s5)
                      else Inr s4))))"

definition refresh :: "elem option \<Rightarrow> new_config option \<Rightarrow> hyperlist \<Rightarrow> (error \<times> hyperlist) + hyperlist" where
  "refresh el nc s =
     (case refresh_element el s of
        Inl e \<Rightarrow> Inl e
      | Inr s1 \<Rightarrow> (case refresh_config nc s1 of Inl e \<Rightarrow> Inl e | Inr s2 \<Rightarrow> refresh_layout s2))"





subsection \<open>Sample instances\<close>

text \<open>
  A generator that returns a plain element node for every row, the options of a list of
  \<open>n\<close> rows of one height, a container, and the instance the later file's constructor
  builds from them. \<open>scrolled_to\<close> is the user scrolling the container.
\<close>

definition plain_rows :: "nat \<Rightarrow> gen_item" where
  "plain_rows i = Item (Some i) Undefined None"

definition uniform_options :: "nat \<Rightarrow> rat \<Rightarrow> new_config" where
  "uniform_options n h =
     \<lparr> n_generate = Some (Some plain_rows), n_itemCount = Some (Number (Num (of_nat n))),
       n_itemHeight = Some (Number (Num h)), n_reverse = None, n_useFragment = None,
       n_overrideScrollPosition = None \<rparr>"

definition container :: "rat \<Rightarrow> rat \<Rightarrow> elem" where
  "container sz pos = \<lparr> nodeType = 1, clientSize = sz, scrollTop = pos \<rparr>"

definition built :: "(error \<times> 's) + 's \<Rightarrow> 's" where
  "built r = (case r of Inl (e, s) \<Rightarrow> s | Inr s \<Rightarrow> s)"




subsection \<open>The relations between the tables\<close>


text \<open>
  The forward relation between a position table and a height table over \<open>n\<close> rows, with
  JavaScript's equality: \<open>pos[0] == 0\<close> and \<open>pos[i + 1] == pos[i] + heights[i]\<close>. The reverse
  relation the later file maintains: \<open>pos[i + 1] == pos[i] - heights[i + 1]\<close>.
\<close>

definition forward_sums :: "jsnum list \<Rightarrow> jsnum list \<Rightarrow> nat \<Rightarrow> bool" where
  "forward_sums hs ps n =
     ((0 < n \<longrightarrow> jeq (rd ps 0) (Num 0))
      \<and> list_all (\<lambda>i. jeq (rd ps (i + 1)) (jadd (rd ps i) (rd hs i))) [0..<n - 1])"

definition reverse_sums :: "jsnum list \<Rightarrow> jsnum list \<Rightarrow> nat \<Rightarrow> bool" where
  "reverse_sums hs ps n =
     list_all (\<lambda>i. jeq (rd ps (i + 1)) (jsub (rd ps i) (rd hs (i + 1)))) [0..<n - 1]"




section \<open>The row list (\<open>lib/index.js\<close>)\<close>

text \<open>
  The third source file keeps one object per row, with the row's own length, its start
  offset and a visibility flag, and a window over the rows. Node styling, the
  \<open>onHide\<close> and \<open>onDisplay\<close> callbacks of a row and the scheduling of frames are left to
  the host.
\<close>

text \<open>
  A row object: \<open>node\<close> is \<open>None\<close> while the row has no element node; \<open>length\<close> and
  \<open>start\<close> are \<open>NaN\<close> while \<open>undefined\<close>; an \<open>undefined\<close> \<open>visible\<close> is falsy.
\<close>

record row =
  r_node :: "nat option"
  r_length :: jsnum
  r_start :: jsnum
  r_visible :: bool

text \<open>The window \<open>{start, end, first, last}\<close>; \<open>-1\<close> is the index of no row.\<close>

record window =
  w_start :: jsnum
  w_end :: jsnum
  w_first :: int
  w_last :: int

text \<open>
  The instance: the rows (\<open>None\<close> for a hole of the array), the window (\<open>None\<close> for
  \<open>null\<close>), the total extent, the default row length (\<open>NaN\<close> while unset), the padding,
  the root element's scroll position, height and child nodes, the \<open>renderRow\<close> callback
  (it returns a node or nothing, and the row as it leaves it), and the two variables of the
  frame loop.
\<close>

record rowlist =
  rows :: "row option list"
  window :: "window option"
  contentLength :: jsnum
  rowLength :: jsnum
  padding :: rat
  root_scrollTop :: rat
  root_clientHeight :: rat
  children :: "nat list"
  renderRow :: "nat \<Rightarrow> row \<Rightarrow> nat option \<times> row"
  refreshLoop :: bool
  scrolled :: bool

text \<open>The row \<open>{}\<close>, and the default callback \<open>(i, row) => row.node\<close>.\<close>

definition empty_row :: row where
  "empty_row = \<lparr> r_node = None, r_length = NaN, r_start = NaN, r_visible = False \<rparr>"

definition default_renderRow :: "nat \<Rightarrow> row \<Rightarrow> nat option \<times> row" where
  "default_renderRow i r = (r_node r, r)"

text \<open>The instance the constructor builds from valid options.\<close>

definition new_list :: "jsnum \<Rightarrow> rat \<Rightarrow> rat \<Rightarrow> rat \<Rightarrow> rowlist" where
  "new_list default_length pad pos ht =
     \<lparr> rows = [], window = None, contentLength = Num 0, rowLength = default_length, padding = pad,
       root_scrollTop = pos, root_clientHeight = ht, children = [],
       renderRow = default_renderRow, refreshLoop = False, scrolled = False \<rparr>"

text \<open>\<open>rows[i]\<close>: \<open>undefined\<close> outside the array and at a hole.\<close>

definition get_row :: "row option list \<Rightarrow> int \<Rightarrow> row option" where
  "get_row rs i = (if 0 \<le> i \<and> i < int (length rs) then rs ! nat i else None)"

text \<open>A change to the row object at index \<open>i\<close>.\<close>

definition set_row :: "row option list \<Rightarrow> int \<Rightarrow> row \<Rightarrow> row option list" where
  "set_row rs i r = rs[nat i := Some r]"

subsection \<open>\<open>_renderRows\<close>\<close>

text \<open>
  The bounds every full resolve uses: \<open>start = scrollTop - padding\<close> and \<open>end = scrollTop
  + clientHeight + padding\<close>.
\<close>

definition full_start :: "rowlist \<Rightarrow> rat" where
  "full_start s = root_scrollTop s - padding s"

definition full_end :: "rowlist \<Rightarrow> rat" where
  "full_end s = root_scrollTop s + root_clientHeight s + padding s"

text \<open>
  The loop over the indices, carrying \<open>len\<close>, \<open>first\<close> and \<open>last\<close>. A row whose callback
  returns no node is skipped; a row without a length takes the default length, and
  without a default the loop throws.
\<close>

fun renderRows_loop :: "nat list \<Rightarrow> jsnum \<times> int \<times> int \<Rightarrow> rowlist \<Rightarrow>
    (error \<times> rowlist) + ((jsnum \<times> int \<times> int) \<times> rowlist)" where
  "renderRows_loop [] acc s = Inr (acc, s)"
| "renderRows_loop (i # is) (len, fi, la) s =
     (let row0 = (case get_row (rows s) (int i) of None \<Rightarrow> empty_row | Some r \<Rightarrow> r);
          (node, row1) = renderRow s i row0
      in case node of
           None \<Rightarrow> renderRows_loop is (len, fi, la) (s\<lparr>rows := set_row (rows s) (int i) row1\<rparr>)
         | Some nd \<Rightarrow>
             (let row2 = row1\<lparr>r_node := Some nd\<rparr>
              in if r_length row2 = NaN \<and> \<not> truthy (rowLength s)
                 then Inl (MissingRowLength, s\<lparr>rows := set_row (rows s) (int i) row2\<rparr>)
                 else
                   (let row3 = (if r_length row2 = NaN then row2\<lparr>r_length := rowLength s\<rparr> else row2);
                        vis = (jlt len (Num (full_end s)) \<and> jgt (jadd len (r_length row3)) (Num (full_start s)));
                        row4 = row3\<lparr>r_start := len, r_visible := vis\<rparr>
                    in renderRows_loop is
                         (jadd len (r_length row4),
                          if vis \<and> fi < 0 then int i else fi,
                          if vis then int i else la)
                         (s\<lparr>rows := set_row (rows s) (int i) row4,
                            children := filter (\<lambda>c. c \<noteq> nd) (children s) @ [nd]\<rparr>))))"

definition renderRows :: "rowlist \<Rightarrow> (error \<times> rowlist) + rowlist" where
  "renderRows s =
     (case renderRows_loop [0..<length (rows s)] (Num 0, - 1, - 1) s of
        Inl e \<Rightarrow> Inl e
      | Inr ((len, fi, la), s1) \<Rightarrow>
          Inr (s1\<lparr>contentLength := len,
                 window := Some \<lparr> w_start = Num (full_start s), w_end = Num (full_end s),
                                  w_first = fi, w_last = la \<rparr>\<rparr>))"

subsection \<open>\<open>_hideRow\<close>, \<open>_findRow\<close> and \<open>_displayRows\<close>\<close>

text \<open>
  Functions on the row array return the array as they leave it, also when they throw.
  \<open>_hideRow\<close> clears the flag and then touches the node, which throws when the row has
  none.
\<close>

definition hideRow :: "row option list \<Rightarrow> int \<Rightarrow> (error \<times> row option list) + row option list" where
  "hideRow rs i =
     (case get_row rs i of
        None \<Rightarrow> Inl (TypeError, rs)
      | Some r \<Rightarrow>
          (case r_node r of
             None \<Rightarrow> Inl (TypeError, set_row rs i (r\<lparr>r_visible := False\<rparr>))
           | Some nd \<Rightarrow> Inr (set_row rs i (r\<lparr>r_visible := False\<rparr>))))"

text \<open>
  The two directions of the loop of \<open>_findRow\<close>: \<open>row = rows[i += direction]\<close>, then
  \<open>len -= row.length; if (len < endLength || i == 0) return i\<close> going down and \<open>len +=
  row.length; if (len > endLength || i == rows.length) return i\<close> going up. Stepping off
  the array reads the length of \<open>undefined\<close> and throws.
\<close>

function findRow_down :: "row option list \<Rightarrow> jsnum \<Rightarrow> int \<Rightarrow> jsnum \<Rightarrow> error + int" where
  "findRow_down rs endLength i len =
     (case get_row rs (i - 1) of
        None \<Rightarrow> Inl TypeError
      | Some r \<Rightarrow>
          (let len1 = jsub len (r_length r)
           in if jlt len1 endLength \<or> i - 1 = 0 then Inr (i - 1)
              else findRow_down rs endLength (i - 1) len1))"
  by pat_completeness auto
termination
  by (relation "measure (\<lambda>(rs, endLength, i, len). nat i)")
    (auto simp: get_row_def split: if_splits)

function findRow_up :: "row option list \<Rightarrow> jsnum \<Rightarrow> int \<Rightarrow> jsnum \<Rightarrow> error + int" where
  "findRow_up rs endLength i len =
     (case get_row rs (i + 1) of
        None \<Rightarrow> Inl TypeError
      | Some r \<Rightarrow>
          (let len1 = jadd len (r_length r)
           in if jgt len1 endLength \<or> i + 1 = int (length rs) then Inr (i + 1)
              else findRow_up rs endLength (i + 1) len1))"
  by pat_completeness auto
termination
  by (relation "measure (\<lambda>(rs, endLength, i, len). nat (int (length rs) - i))")
    (auto simp: get_row_def split: if_splits)

text \<open>
  \<open>_findRow(startIndex, endLength, direction)\<close>; the direction is 1 (\<open>up\<close>) or -1 at every
  call. The start index is \<open>None\<close> when the caller passes a variable it never assigned.
\<close>

definition findRow :: "row option list \<Rightarrow> int option \<Rightarrow> jsnum \<Rightarrow> bool \<Rightarrow> error + int" where
  "findRow rs startIndex endLength up =
     (case startIndex of
        None \<Rightarrow> Inl TypeError
      | Some i0 \<Rightarrow>
          (if i0 < 0 then Inr 0
           else if i0 \<ge> int (length rs) then Inr (int (length rs) - 1)
           else
             (case get_row rs i0 of
                None \<Rightarrow> Inl TypeError
              | Some r \<Rightarrow>
                  (if up then findRow_up rs endLength i0 (r_start r)
                   else findRow_down rs endLength i0 (r_start r)))))"

text \<open>
  The loop of \<open>_displayRows\<close>: show the row if it is hidden, add its length in the
  direction of travel, stop when the length reaches \<open>endLength\<close> or the index reaches the
  end of the array (index 0 going down).
\<close>

function displayRows_loop :: "row option list \<Rightarrow> jsnum \<Rightarrow> bool \<Rightarrow> int \<Rightarrow> jsnum \<Rightarrow>
    (error \<times> row option list) + (row option list \<times> int)" where
  "displayRows_loop rs endLength up i len =
     (case get_row rs i of
        None \<Rightarrow> Inl (TypeError, rs)
      | Some r \<Rightarrow>
          (if \<not> r_visible r \<and> r_node r = None
           then Inl (TypeError, set_row rs i (r\<lparr>r_visible := True\<rparr>))
           else
             (let rs1 = (if r_visible r then rs else set_row rs i (r\<lparr>r_visible := True\<rparr>));
                  len1 = jadd len (jmul (r_length r) (Num (if up then 1 else - 1)));
                  endIndex = (if up then int (length rs) - 1 else 0)
              in if (if up then jge len1 endLength else jle len1 endLength) \<or> i = endIndex
                 then Inr (rs1, i)
                 else displayRows_loop rs1 endLength up (if up then i + 1 else i - 1) len1)))"
  by pat_completeness auto
termination
  by (relation "measure (\<lambda>(rs, endLength, up, i, len). if up then nat (int (length rs) - i) else nat i)")
    (auto simp: get_row_def set_row_def split: if_splits)

definition displayRows :: "row option list \<Rightarrow> int \<Rightarrow> jsnum \<Rightarrow> bool \<Rightarrow>
    (error \<times> row option list) + (row option list \<times> int)" where
  "displayRows rs startIndex endLength up =
     (case get_row rs startIndex of
        None \<Rightarrow> Inl (TypeError, rs)
      | Some r \<Rightarrow>
          displayRows_loop rs endLength up startIndex
            (if up then r_start r else jadd (r_start r) (r_length r)))"

subsection \<open>\<open>_refreshWindow\<close>\<close>

text \<open>\<open>while (++i <= hi) this._hideRow(rows[i])\<close> and \<open>while (--i >= lo)
  this._hideRow(rows[i])\<close>.\<close>

function hide_up :: "row option list \<Rightarrow> int \<Rightarrow> int \<Rightarrow> (error \<times> row option list) + row option list" where
  "hide_up rs i hi =
     (if i + 1 \<le> hi
      then (case hideRow rs (i + 1) of Inl e \<Rightarrow> Inl e | Inr rs1 \<Rightarrow> hide_up rs1 (i + 1) hi)
      else Inr rs)"
  by pat_completeness auto
termination
  by (relation "measure (\<lambda>(rs, i, hi). nat (hi - i))") auto

function hide_down :: "row option list \<Rightarrow> int \<Rightarrow> int \<Rightarrow> (error \<times> row option list) + row option list" where
  "hide_down rs i lo =
     (if i - 1 \<ge> lo
      then (case hideRow rs (i - 1) of Inl e \<Rightarrow> Inl e | Inr rs1 \<Rightarrow> hide_down rs1 (i - 1) lo)
      else Inr rs)"
  by pat_completeness auto
termination
  by (relation "measure (\<lambda>(rs, i, lo). nat (i - lo))") auto

text \<open>
  Scrolling forward, the \<open>do ... while (++i <= win.last)\<close> loop that hides the rows now
  before the window: the result is the array, \<open>first\<close> (still \<open>-1\<close> when every row of the
  old window was hidden) and \<open>i\<close>.
\<close>

function forward_trim :: "row option list \<Rightarrow> window \<Rightarrow> jsnum \<Rightarrow> int \<Rightarrow> jsnum \<Rightarrow>
    (error \<times> row option list) + (row option list \<times> int \<times> int)" where
  "forward_trim rs win start i len =
     (case get_row rs i of
        None \<Rightarrow> Inl (TypeError, rs)
      | Some r \<Rightarrow>
          (let len1 = jadd len (jsub (r_length r) (jmax (Num 0) (jsub (w_start win) (r_start r))))
           in if jle len1 start
              then (case hideRow rs i of
                      Inl e \<Rightarrow> Inl e
                    | Inr rs1 \<Rightarrow>
                        if i + 1 \<le> w_last win then forward_trim rs1 win start (i + 1) len1
                        else Inr (rs1, - 1, i + 1))
              else Inr (rs, i, i)))"
  by pat_completeness auto
termination
  by (relation "measure (\<lambda>(rs, win, start, i, len). nat (w_last win + 1 - i))") auto

text \<open>
  Scrolling backward, the \<open>while (--i >= win.first)\<close> loop that hides the rows now after
  the window: the result is the array, \<open>last\<close> and \<open>i\<close>.
\<close>

function backward_trim :: "row option list \<Rightarrow> window \<Rightarrow> jsnum \<Rightarrow> int \<Rightarrow> jsnum \<Rightarrow>
    (error \<times> row option list) + (row option list \<times> int \<times> int)" where
  "backward_trim rs win en i len =
     (if i - 1 \<ge> w_first win
      then
        (case get_row rs (i - 1) of
           None \<Rightarrow> Inl (TypeError, rs)
         | Some r \<Rightarrow>
             (let len1 = jsub len (jmin (jsub (w_end win) (r_start r)) (r_length r))
              in if jlt len1 en then Inr (rs, i - 1, i - 1)
                 else (case hideRow rs (i - 1) of
                         Inl e \<Rightarrow> Inl e
                       | Inr rs1 \<Rightarrow> backward_trim rs1 win en (i - 1) len1)))
      else Inr (rs, - 1, i - 1))"
  by pat_completeness auto
termination
  by (relation "measure (\<lambda>(rs, win, en, i, len). nat (i - w_first win))") auto

text \<open>
  The tail of the forward branch: \<open>last = this._displayRows(first, end, 1)\<close>, the rows of
  the old window after \<open>last\<close> hidden, and the new window stored.
\<close>

definition forward_show :: "rowlist \<Rightarrow> row option list \<Rightarrow> window \<Rightarrow> jsnum \<Rightarrow> jsnum \<Rightarrow> int \<Rightarrow>
    (error \<times> rowlist) + rowlist" where
  "forward_show s rs win start en fi =
     (case displayRows rs fi en True of
        Inl (e, rs1) \<Rightarrow> Inl (e, s\<lparr>rows := rs1\<rparr>)
      | Inr (rs2, la) \<Rightarrow>
          (case (if la < w_last win then hide_up rs2 la (w_last win) else Inr rs2) of
             Inl (e, rs1) \<Rightarrow> Inl (e, s\<lparr>rows := rs1\<rparr>)
           | Inr rs3 \<Rightarrow>
               Inr (s\<lparr>rows := rs3,
                      window := Some \<lparr> w_start = start, w_end = en, w_first = fi, w_last = la \<rparr>\<rparr>)))"

text \<open>The tail of the backward branch, its mirror image.\<close>

definition backward_show :: "rowlist \<Rightarrow> row option list \<Rightarrow> window \<Rightarrow> jsnum \<Rightarrow> jsnum \<Rightarrow> int \<Rightarrow>
    (error \<times> rowlist) + rowlist" where
  "backward_show s rs win start en la =
     (case displayRows rs la start False of
        Inl (e, rs1) \<Rightarrow> Inl (e, s\<lparr>rows := rs1\<rparr>)
      | Inr (rs2, fi) \<Rightarrow>
          (case (if fi > w_first win then hide_down rs2 fi (w_first win) else Inr rs2) of
             Inl (e, rs1) \<Rightarrow> Inl (e, s\<lparr>rows := rs1\<rparr>)
           | Inr rs3 \<Rightarrow>
               Inr (s\<lparr>rows := rs3,
                      window := Some \<lparr> w_start = start, w_end = en, w_first = fi, w_last = la \<rparr>\<rparr>)))"

text \<open>
  The bounds the tracker uses: \<open>start = Math.max(0, scrollTop - padding)\<close> and \<open>end =
  Math.min(this._contentLength, scrollTop + clientHeight + padding)\<close>.
\<close>

definition tracked_start :: "rowlist \<Rightarrow> jsnum" where
  "tracked_start s = Num (max 0 (root_scrollTop s - padding s))"

definition tracked_end :: "rowlist \<Rightarrow> jsnum" where
  "tracked_end s = jmin (contentLength s) (Num (full_end s))"

text \<open>
  \<open>_refreshWindow\<close>. With an empty previous window the index \<open>i\<close> is never assigned
  before it is handed to \<open>_findRow\<close>.
\<close>

definition refreshWindow :: "rowlist \<Rightarrow> (error \<times> rowlist) + rowlist" where
  "refreshWindow s =
     (case window s of
        None \<Rightarrow> Inl (TypeError, s)
      | Some win \<Rightarrow>
          (let start = tracked_start s
           in if jeq start (w_start win) \<and> w_first win \<ge> 0 then Inr s
              else
                (let en = tracked_end s
                 in if jgt start (w_start win) then
                      (case (if w_first win \<ge> 0
                             then (case forward_trim (rows s) win start (w_first win) (w_start win) of
                                     Inl e \<Rightarrow> Inl e
                                   | Inr (rs, fi, i) \<Rightarrow> Inr (rs, fi, Some i))
                             else Inr (rows s, - 1, None)) of
                         Inl (e, rs) \<Rightarrow> Inl (e, s\<lparr>rows := rs\<rparr>)
                       | Inr (rs1, fi, i) \<Rightarrow>
                           (if fi < 0 then
                              (case findRow rs1 i start True of
                                 Inl e \<Rightarrow> Inl (e, s\<lparr>rows := rs1\<rparr>)
                               | Inr fi1 \<Rightarrow>
                                   (case get_row rs1 fi1 of
                                      None \<Rightarrow> Inl (TypeError, s\<lparr>rows := rs1\<rparr>)
                                    | Some r \<Rightarrow>
                                        if jlt (jadd (r_start r) (r_length r)) start
                                        then Inl (FirstRowNotFound, s\<lparr>rows := rs1\<rparr>)
                                        else forward_show s rs1 win start en fi1))
                            else if fi = w_first win
                                    \<and> (case get_row rs1 (w_last win) of
                                          None \<Rightarrow> False
                                        | Some r \<Rightarrow> jgt (jadd (r_start r) (r_length r)) en)
                            then Inr (s\<lparr>rows := rs1\<rparr>)
                            else forward_show s rs1 win start en fi))
                    else
                      (case (if w_first win \<ge> 0
                             then (case backward_trim (rows s) win en (w_last win + 1) (w_end win) of
                                     Inl e \<Rightarrow> Inl e
                                   | Inr (rs, la, i) \<Rightarrow> Inr (rs, la, Some i))
                             else Inr (rows s, - 1, None)) of
                         Inl (e, rs) \<Rightarrow> Inl (e, s\<lparr>rows := rs\<rparr>)
                       | Inr (rs1, la, i) \<Rightarrow>
                           (if la < 0 then
                              (case findRow rs1 i en False of
                                 Inl e \<Rightarrow> Inl (e, s\<lparr>rows := rs1\<rparr>)
                               | Inr la1 \<Rightarrow>
                                   (case get_row rs1 la1 of
                                      None \<Rightarrow> Inl (TypeError, s\<lparr>rows := rs1\<rparr>)
                                    | Some r \<Rightarrow>
                                        if jgt (r_start r) en
                                        then Inl (LastRowNotFound, s\<lparr>rows := rs1\<rparr>)
                                        else backward_show s rs1 win start en la1))
                            else if la = w_last win
                                    \<and> (case get_row rs1 (w_first win) of
                                          None \<Rightarrow> False
                                        | Some r \<Rightarrow> jlt (r_start r) en)
                            then Inr (s\<lparr>rows := rs1\<rparr>)
                            else backward_show s rs1 win start en la)))))"

subsection \<open>\<open>_removeRows\<close>\<close>

text \<open>
  The \<open>do ... while (++i <= endIndex)\<close> loop: each row's node is taken out of the root
  (which throws for a row without a node, or a node that is not a child) and its length
  added up. The result is the children, the sum, and \<open>i\<close>.
\<close>

function remove_nodes :: "row option list \<Rightarrow> nat list \<Rightarrow> int \<Rightarrow> int \<Rightarrow> jsnum \<Rightarrow>
    (error \<times> nat list) + (nat list \<times> jsnum \<times> int)" where
  "remove_nodes rs ch i hi len =
     (case get_row rs i of
        None \<Rightarrow> Inl (TypeError, ch)
      | Some r \<Rightarrow>
          (case r_node r of
             None \<Rightarrow> Inl (TypeError, ch)
           | Some nd \<Rightarrow>
               (if nd \<notin> set ch then Inl (NotFoundError, ch)
                else if i + 1 \<le> hi
                then remove_nodes rs (remove1 nd ch) (i + 1) hi (jadd len (r_length r))
                else Inr (remove1 nd ch, jadd len (r_length r), i + 1))))"
  by pat_completeness auto
termination
  by (relation "measure (\<lambda>(rs, ch, i, hi, len). nat (hi + 1 - i))") auto

text \<open>\<open>rows.splice(start, count)\<close> for a start inside the array.\<close>

definition splice :: "'a list \<Rightarrow> int \<Rightarrow> int \<Rightarrow> 'a list" where
  "splice xs start cnt = take (nat start) xs @ drop (nat start + nat cnt) xs"

text \<open>\<open>while (++i <= maxIndex) rows[i].start -= len\<close>.\<close>

function shift_starts :: "row option list \<Rightarrow> int \<Rightarrow> int \<Rightarrow> jsnum \<Rightarrow>
    (error \<times> row option list) + row option list" where
  "shift_starts rs i hi len =
     (if i + 1 \<le> hi
      then (case get_row rs (i + 1) of
              None \<Rightarrow> Inl (TypeError, rs)
            | Some r \<Rightarrow> shift_starts (set_row rs (i + 1) (r\<lparr>r_start := jsub (r_start r) len\<rparr>)) (i + 1) hi len)
      else Inr rs)"
  by pat_completeness auto
termination
  by (relation "measure (\<lambda>(rs, i, hi, len). nat (hi - i))") auto

text \<open>
  \<open>_removeRows(startIndex, endIndex)\<close>. The last step calls \<open>this._renderVisible()\<close>, a
  method the class does not have, so a removal that reaches it ends in a \<open>TypeError\<close>.
\<close>

definition removeRows :: "int \<Rightarrow> int \<Rightarrow> rowlist \<Rightarrow> (error \<times> rowlist) + rowlist" where
  "removeRows startIndex endIndex s =
     (case remove_nodes (rows s) (children s) startIndex endIndex (Num 0) of
        Inl (e, ch) \<Rightarrow> Inl (e, s\<lparr>children := ch\<rparr>)
      | Inr (ch, len, i) \<Rightarrow>
          (let rs1 = splice (rows s) startIndex (1 + endIndex - startIndex);
               s1 = s\<lparr>children := ch, contentLength := jsub (contentLength s) len, rows := rs1\<rparr>;
               maxIndex = int (length rs1) - 1
           in case (if endIndex < maxIndex then shift_starts rs1 i maxIndex len else Inr rs1) of
                Inl (e, rs2) \<Rightarrow> Inl (e, s1\<lparr>rows := rs2\<rparr>)
              | Inr rs2 \<Rightarrow>
                  (case window s1 of
                     None \<Rightarrow> Inr (s1\<lparr>rows := rs2\<rparr>)
                   | Some win \<Rightarrow>
                       (if jle (w_start win) (Num (of_int endIndex)) \<and> jge (w_end win) (Num (of_int startIndex))
                        then
                          (let win1 = (if jge (w_start win) (Num (of_int startIndex))
                                       then win\<lparr>w_start := Num (of_int (endIndex + 1))\<rparr> else win);
                               win2 = (if jle (w_end win1) (Num (of_int endIndex))
                                       then win1\<lparr>w_end := Num (of_int (startIndex - 1))\<rparr> else win1)
                           in Inl (TypeError,
                                s1\<lparr>rows := rs2,
                                   window := (if jlt (jsub (w_end win2) (w_start win2)) (Num 0)
                                              then None else Some win2)\<rparr>))
                        else Inr (s1\<lparr>rows := rs2\<rparr>)))))"

subsection \<open>\<open>append\<close>, \<open>refresh\<close> and the frame loop\<close>


text \<open>
  One frame of the loop \<open>_refreshOnScroll\<close> registers, and a scroll event.
\<close>

definition frame :: "rowlist \<Rightarrow> (error \<times> rowlist) + rowlist" where
  "frame s =
     (if scrolled s
      then (case window s of
              Some win \<Rightarrow> refreshWindow (s\<lparr>scrolled := False\<rparr>)
            | None \<Rightarrow> renderRows (s\<lparr>scrolled := False\<rparr>))
      else Inr s)"

definition scroll_event :: "rat \<Rightarrow> rowlist \<Rightarrow> rowlist" where
  "scroll_event pos s = s\<lparr>root_scrollTop := pos, scrolled := True\<rparr>"

text \<open>
  The options of \<open>refresh\<close>: \<open>rowCount\<close> and \<open>rowLength\<close> as given, and \<open>renderRow\<close> when
  it is a function.
\<close>

record refresh_options =
  o_rowCount :: jsval
  o_rowLength :: jsval
  o_renderRow :: "(nat \<Rightarrow> row \<Rightarrow> nat option \<times> row) option"

text \<open>
  The first step of \<open>refresh\<close>: a row count below the current one removes the rows past
  it, and \<open>rows.length = rowCount\<close> cuts or extends the array (with holes); a count that
  is not a valid array length makes the removal or the assignment throw.
\<close>

definition resize_rows :: "jsval \<Rightarrow> rowlist \<Rightarrow> (error \<times> rowlist) + rowlist" where
  "resize_rows rowCount s =
     (case rowCount of
        Number c \<Rightarrow>
          (if c = NaN \<or> c = Num (of_nat (length (rows s))) then Inr s
           else if is_count rowCount then
             (let n = count_of rowCount
              in case (if n < length (rows s) then removeRows (int n) (int (length (rows s)) - 1) s
                       else Inr s) of
                   Inl e \<Rightarrow> Inl e
                 | Inr s1 \<Rightarrow>
                     Inr (s1\<lparr>rows := take n (rows s1) @ replicate (n - length (rows s1)) None\<rparr>))
           else if jlt c (Num (of_nat (length (rows s)))) then Inl (TypeError, s)
           else Inl (RangeError, s))
      | _ \<Rightarrow> Inr s)"

definition refresh_rows :: "refresh_options \<Rightarrow> rowlist \<Rightarrow> (error \<times> rowlist) + rowlist" where
  "refresh_rows opts s =
     (case resize_rows (o_rowCount opts) s of
        Inl e \<Rightarrow> Inl e
      | Inr s1 \<Rightarrow>
          (let s2 = (case o_rowLength opts of
                       Number l \<Rightarrow> if l = NaN then s1 else s1\<lparr>rowLength := l\<rparr>
                     | _ \<Rightarrow> s1);
               s3 = (case o_renderRow opts of None \<Rightarrow> s2 | Some f \<Rightarrow> s2\<lparr>renderRow := f\<rparr>);
               s4 = s3\<lparr>children := []\<rparr>
           in if length (rows s4) \<noteq> 0
              then (case renderRows s4 of
                      Inl e \<Rightarrow> Inl e
                    | Inr s5 \<Rightarrow> Inr (s5\<lparr>refreshLoop := True, scrolled := (if refreshLoop s5 then scrolled s5 else False)\<rparr>))
              else Inr (s4\<lparr>refreshLoop := False\<rparr>)))"

subsection \<open>Sample row lists\<close>

text \<open>
  A callback that gives row \<open>i\<close> the node \<open>i\<close>, and the list of \<open>n\<close> rows of one length a
  \<open>refresh\<close> builds with it on a fresh instance. \<open>numbered_row\<close> is one such row as the full
  resolve leaves it.
\<close>

definition numbered_rows :: "nat \<Rightarrow> row \<Rightarrow> nat option \<times> row" where
  "numbered_rows i r = (Some i, r)"

definition uniform_rows :: "nat \<Rightarrow> rat \<Rightarrow> rat \<Rightarrow> rat \<Rightarrow> rat \<Rightarrow> rowlist" where
  "uniform_rows n len pad pos ht =
     built (refresh_rows \<lparr> o_rowCount = Number (Num (of_nat n)), o_rowLength = Number (Num len),
                            o_renderRow = Some numbered_rows \<rparr>
              (new_list NaN pad pos ht))"

subsection \<open>Rows by their lengths\<close>

text \<open>
  For a list of row lengths: the start offset of row \<open>i\<close>, whether row \<open>i\<close> overlaps the
  bounds \<open>fs\<close> and \<open>fe\<close> (the test of the full resolve: \<open>row.start < end && row.start +
  row.length > start\<close>), and the first and the last overlapping row among the first \<open>k\<close>,
  \<open>-1\<close> when there is none.
\<close>

definition start_of :: "rat list \<Rightarrow> nat \<Rightarrow> rat" where
  "start_of ls i = sum_list (take i ls)"










definition rows_ok :: "rat list \<Rightarrow> row option list \<Rightarrow> bool" where
  "rows_ok ls rs =
     (length rs = length ls
      \<and> (\<forall>i<length ls. \<exists>r. rs ! i = Some r \<and> r_length r = Num (ls ! i)
             \<and> r_start r = Num (start_of ls i) \<and> r_node r \<noteq> None))"





subsection \<open>The relations the operations keep\<close>









text \<open>What is observed of a row list: its window, and the visibility flags of its rows.\<close>

definition window_of :: "rowlist \<Rightarrow> (jsnum \<times> jsnum \<times> int \<times> int) option" where
  "window_of s = map_option (\<lambda>w. (w_start w, w_end w, w_first w, w_last w)) (window s)"

definition visible_rows :: "rowlist \<Rightarrow> bool list" where
  "visible_rows s = map (\<lambda>x. case x of None \<Rightarrow> False | Some r \<Rightarrow> r_visible r) (rows s)"

section \<open>Properties of the number model\<close>

lemma jsub_Num [simp]: "jsub (Num a) (Num b) = Num (a - b)"
  by (simp add: jsub_def)

lemma jlt_NaN_right [simp]: "jlt a NaN = False"
  by (cases a) simp_all

section \<open>The searches \<open>_getFrom\<close> and \<open>_getReverseFrom\<close>\<close>

lemma getReverseFrom_loop_bounds:
  "getReverseFrom_loop ps b i reads = (r, rs) \<Longrightarrow> i \<le> m \<Longrightarrow> (\<forall>k\<in>set reads. 0 < k \<and> int k \<le> m) \<Longrightarrow>
     (if 0 \<le> i then 0 \<le> r else r = i) \<and> r \<le> i \<and> (\<forall>k\<in>set rs. 0 < k \<and> int k \<le> m)"
proof (induction ps b i reads rule: getReverseFrom_loop.induct)
  case (1 ps bound i reads)
  show ?case
  proof (cases "i > 0")
    case False
    with "1.prems" show ?thesis by auto
  next
    case pos: True
    show ?thesis
    proof (cases "jlt (rd ps (nat i)) bound")
      case False
      with pos "1.prems" show ?thesis by auto
    next
      case True
      from pos True "1.prems"(1) have eq: "getReverseFrom_loop ps bound (i - 1) (reads @ [nat i]) = (r, rs)"
        by simp
      have "(if 0 \<le> i - 1 then 0 \<le> r else r = i - 1) \<and> r \<le> i - 1 \<and> (\<forall>k\<in>set rs. 0 < k \<and> int k \<le> m)"
        using pos True eq "1.prems"(2,3) by (intro "1.IH") auto
      with pos show ?thesis by auto
    qed
  qed
qed

lemma getFrom_loop_all_below:
  "(\<forall>j. i \<le> j \<and> j < length ps \<longrightarrow> jlt (ps ! j) st) \<Longrightarrow> i \<le> length ps \<Longrightarrow>
     getFrom_loop ps st i reads = (length ps, reads @ [i..<Suc (length ps)])"
proof (induction ps st i reads rule: getFrom_loop.induct)
  case (1 ps st i reads)
  show ?case
  proof (cases "i < length ps")
    case True
    with "1.prems" have lt: "jlt (rd ps i) st"
      by (simp add: rd_def)
    have "getFrom_loop ps st (Suc i) (reads @ [i]) = (length ps, (reads @ [i]) @ [Suc i..<Suc (length ps)])"
      using lt True "1.prems" by (intro "1.IH") auto
    moreover have "[i..<Suc (length ps)] = i # [Suc i..<Suc (length ps)]"
      using True by (simp add: upt_conv_Cons)
    ultimately show ?thesis
      using lt by simp
  next
    case False
    with "1.prems" have "i = length ps" by simp
    then show ?thesis
      by (simp add: rd_def)
  qed
qed

text \<open>
  Claim C10. With at least one row, the reverse search \<open>_getReverseFrom\<close> returns an index
  between 0 and \<open>itemCount - 1\<close>, and every position it reads has an index between 1 and
  \<open>itemCount - 1\<close>, so none outside the table. The forward search \<open>_getFrom\<close> is different:
  when the scroll coordinate lies beyond every stored position it returns the length of
  the table, one past the last row, and the read that stops it is the read at that
  index, outside the table.
\<close>

theorem search_index_bounds:
  assumes "1 \<le> n"
  shows "0 \<le> fst (getReverseFrom n ps cs st) \<and> fst (getReverseFrom n ps cs st) \<le> int n - 1
     \<and> (\<forall>k\<in>set (snd (getReverseFrom n ps cs st)). 0 < k \<and> k < n)
     \<and> ((\<forall>p\<in>set ps. jlt p (Num st)) \<longrightarrow>
           getFrom ps st = length ps \<and> last (snd (getFrom_loop ps (Num st) 0 [])) = length ps)"
proof -
  obtain r rs where res: "getReverseFrom_loop ps (jadd (Num st) cs) (int n - 1) [] = (r, rs)"
    by (cases "getReverseFrom_loop ps (jadd (Num st) cs) (int n - 1) []") auto
  have "(if 0 \<le> int n - 1 then 0 \<le> r else r = int n - 1) \<and> r \<le> int n - 1
      \<and> (\<forall>k\<in>set rs. 0 < k \<and> int k \<le> int n - 1)"
    by (rule getReverseFrom_loop_bounds [OF res]) simp_all
  with assms have rev_part: "0 \<le> r \<and> r \<le> int n - 1 \<and> (\<forall>k\<in>set rs. 0 < k \<and> k < n)"
    by auto
  have fwd_part: "getFrom ps st = length ps \<and> last (snd (getFrom_loop ps (Num st) 0 [])) = length ps"
    if all: "\<forall>p\<in>set ps. jlt p (Num st)"
  proof -
    have "getFrom_loop ps (Num st) 0 [] = (length ps, [] @ [0..<Suc (length ps)])"
      using all by (intro getFrom_loop_all_below) auto
    then show ?thesis
      by (simp add: getFrom_def)
  qed
  from rev_part fwd_part res show ?thesis
    by (simp add: getReverseFrom_def)
qed

theorem search_index_bounds_witness:
  "(1::nat) \<le> 3 \<and> jlt (Num 0) (Num 25) \<and> jlt (Num 10) (Num 25) \<and> jlt (Num 20) (Num 25)
     \<and> getReverseFrom 3 [Num 0, Num 10, Num 20] (Num 100) 25 = (0, [2, 1])
     \<and> getFrom [Num 0, Num 10, Num 20] 25 = 3"
  using search_index_bounds [of 3 "[Num 0, Num 10, Num 20]" "Num 100" 25]
  by (simp add: getReverseFrom_def rd_def)

section \<open>The chunk \<open>_renderChunk\<close> resolves\<close>

lemma chunk_to_cases:
  "chunk_to cil n f = Num (of_nat n) \<or>
   (chunk_to cil n f = jadd (Num (of_nat f)) cil \<and> \<not> jgt (jadd (Num (of_nat f)) cil) (Num (of_nat n)))"
  by (simp add: chunk_to_def Let_def)

lemma not_jgt_Num:
  "\<not> jgt x (Num b) \<Longrightarrow> x = Num q \<Longrightarrow> q \<le> b"
  by (simp add: jgt_def)

lemma jgt_PInf_Num: "jgt PInf (Num b)"
  by (simp add: jgt_def)

lemma chunk_range_bounds:
  assumes "i \<in> set (chunk_range f (chunk_to cil n f))"
  shows "f \<le> i \<and> i < n"
proof -
  from chunk_to_cases [of cil n f] show ?thesis
  proof
    assume "chunk_to cil n f = Num (of_nat n)"
    with assms show ?thesis
      by (simp add: chunk_range_def)
  next
    assume a: "chunk_to cil n f = jadd (Num (of_nat f)) cil \<and> \<not> jgt (jadd (Num (of_nat f)) cil) (Num (of_nat n))"
    show ?thesis
    proof (cases "jadd (Num (of_nat f)) cil")
      case (Num q)
      with a have "q \<le> of_nat n"
        by (auto dest: not_jgt_Num)
      then have "\<lceil>q\<rceil> \<le> int n"
        by (simp add: ceiling_le_iff)
      with assms a Num show ?thesis
        by (auto simp: chunk_range_def)
    next
      case PInf
      with a show ?thesis by (simp add: jgt_PInf_Num)
    next
      case NInf
      with assms a show ?thesis by (simp add: chunk_range_def)
    next
      case NaN
      with assms a show ?thesis by (simp add: chunk_range_def)
    qed
  qed
qed

lemma chunk_to_not_PInf: "chunk_to cil n f \<noteq> PInf"
  using chunk_to_cases [of cil n f] by (auto simp: jgt_PInf_Num)

text \<open>
  Claim C7. The range of rows \<open>_renderChunk\<close> resolves is clamped to the list: a first
  index that would be negative becomes 0; an end beyond the row count becomes the row
  count; every index the chunk visits lies below the row count; and with no rows the chunk
  visits nothing.
\<close>

theorem chunk_range_clamped:
  "(from0 < 0 \<longrightarrow> chunk_from sil from0 = 0)
   \<and> (jgt (jadd (Num (of_nat f)) cil) (Num (of_nat n)) \<longrightarrow> chunk_to cil n f = Num (of_nat n))
   \<and> (\<forall>i\<in>set (chunk_range f (chunk_to cil n f)). f \<le> i \<and> i < n)
   \<and> (n = 0 \<longrightarrow> chunk_range f (chunk_to cil n f) = [])
   \<and> chunk_to cil n f \<noteq> PInf"
proof (intro conjI impI ballI)
  assume "from0 < 0"
  then show "chunk_from sil from0 = 0"
    by (simp add: chunk_from_def)
next
  assume "jgt (jadd (Num (of_nat f)) cil) (Num (of_nat n))"
  then show "chunk_to cil n f = Num (of_nat n)"
    by (simp add: chunk_to_def)
next
  fix i assume "i \<in> set (chunk_range f (chunk_to cil n f))"
  then show "f \<le> i" "i < n"
    using chunk_range_bounds by blast+
next
  assume "n = 0"
  have "\<forall>i\<in>set (chunk_range f (chunk_to cil n f)). i < n"
    using chunk_range_bounds by blast
  with \<open>n = 0\<close> show "chunk_range f (chunk_to cil n f) = []"
    by (cases "chunk_range f (chunk_to cil n f)") auto
next
  show "chunk_to cil n f \<noteq> PInf"
    by (rule chunk_to_not_PInf)
qed

theorem chunk_range_clamped_witness:
  "(- 1 :: int) < 0 \<and> chunk_from (Num 4) (- 1) = 0
   \<and> jgt (jadd (Num (of_nat 0)) (Num 12)) (Num (of_nat 10)) \<and> chunk_to (Num 12) 10 0 = Num 10
   \<and> chunk_range 0 (chunk_to (Num 12) 10 0) = [0, 1, 2, 3, 4, 5, 6, 7, 8, 9]
   \<and> chunk_range 0 (chunk_to (Num 12) 0 0) = []"
  using chunk_range_clamped [of "- 1" "Num 4" 0 "Num 12" 10] chunk_range_clamped [of "- 1" "Num 4" 0 "Num 12" 0]
  by (simp add: chunk_from_def chunk_to_def chunk_range_def jgt_def upt_rec)

section \<open>The frame gate\<close>






section \<open>Invalid options\<close>






section \<open>The position table\<close>


lemma length_store: "length (store xs i v) = max (length xs) (Suc i)"
  by (simp add: store_def)

lemma fold_upt_Suc: "a \<le> n \<Longrightarrow> fold f [a..<Suc n] x = f n (fold f [a..<n] x)"
  by simp



lemma length_positions_fold:
  "length (fold (position_step rv sh hs) [a..<n] ps) = (if a < n then max (length ps) n else length ps)"
proof (induction n)
  case 0
  then show ?case by simp
next
  case (Suc n)
  show ?case
  proof (cases "a \<le> n")
    case True
    with Suc show ?thesis
      by (auto simp: position_step_def length_store)
  next
    case False
    then show ?thesis by simp
  qed
qed



lemma count_of_nat [simp]: "count_of (Number (Num (of_nat n))) = n"
  by (simp add: count_of_def)








lemma list_all_upt: "list_all P [0..<m] = (\<forall>i<m. P i)"
  by (auto simp: list_all_iff)


lemma forward_sums_imp_closed:
  assumes "forward_sums (map Num hq) ps m" and "m \<le> Suc (length hq)"
  shows "i < m \<Longrightarrow> rd ps i = Num (sum_list (take i hq))"
proof (induction i)
  case 0
  with assms(1) show ?case
    by (simp add: forward_sums_def jeq_def)
next
  case (Suc i)
  then have ih: "rd ps i = Num (sum_list (take i hq))" by simp
  from Suc.prems assms(2) have il: "i < length hq" by simp
  from Suc.prems have "i < m - 1" by simp
  with assms(1) have "jeq (rd ps (i + 1)) (jadd (rd ps i) (rd (map Num hq) i))"
    by (simp add: forward_sums_def list_all_upt)
  then have "rd ps (Suc i) = Num (sum_list (take i hq) + hq ! i)"
    using ih il by (simp add: jeq_def rd_def)
  then show ?case
    using il by (simp add: take_Suc_conv_app_nth)
qed


lemma reverse_sums_imp_closed:
  assumes "reverse_sums (map Num hq) ps m" and "m \<le> length hq" and "rd ps 0 = Num p0"
  shows "i < m \<Longrightarrow> rd ps i = Num (p0 + hq ! 0 - sum_list (take (Suc i) hq))"
proof (induction i)
  case 0
  with assms(2) have "0 < length hq" by auto
  then have "take (Suc 0) hq = [hq ! 0]"
    by (cases hq) simp_all
  with assms(3) show ?case
    by simp
next
  case (Suc i)
  then have ih: "rd ps i = Num (p0 + hq ! 0 - sum_list (take (Suc i) hq))" by simp
  from Suc.prems assms(2) have il: "Suc i < length hq" by simp
  from Suc.prems have "i < m - 1" by simp
  with assms(1) have "jeq (rd ps (i + 1)) (jsub (rd ps i) (rd (map Num hq) (i + 1)))"
    by (simp add: reverse_sums_def list_all_upt)
  then have "rd ps (Suc i) = Num (p0 + hq ! 0 - sum_list (take (Suc i) hq) - hq ! Suc i)"
    using ih il by (simp add: jeq_def rd_def)
  moreover have "sum_list (take (Suc (Suc i)) hq) = sum_list (take (Suc i) hq) + hq ! Suc i"
    using il take_Suc_conv_app_nth [of "Suc i" hq] by simp
  ultimately show ?case
    by simp
qed













section \<open>Removing rows\<close>

text \<open>
  Claim C5 says that a removal detaches the nodes, shifts the positions after the removed
  range, splices the rows out, adjusts the window where the range overlaps it, and ends in
  a fresh resolve. The code does the first and the third. On a list of ten rows of length
  10 resolved at scroll position 0 with a viewport of 25 (rows 0 to 2 visible),
  \<open>refresh({rowCount: 8})\<close> removes rows 8 and 9, which are not visible, and then throws a
  \<open>TypeError\<close> out of \<open>_removeRows\<close>: the window test compares the pixel bounds 0 and 25 with
  the row indices 8 and 9, takes the range for an overlap, and calls
  \<open>this._renderVisible()\<close>, which does not exist; no resolve follows and the window is left
  as it was. And \<open>_removeRows(2, 3)\<close> on the same rows (without a window) leaves the starts
  0, 10, 40, 50, 60, 50, 60, 70: after the splice the loop that shifts the starts begins
  at the old index 5, so the rows now at 2, 3 and 4 keep their old starts.
\<close>

theorem removeRows_defects:
  "(case refresh_rows \<lparr> o_rowCount = Number (Num 8), o_rowLength = Undefined, o_renderRow = None \<rparr>
           (uniform_rows 10 10 0 0 25) of
      Inl (e, s) \<Rightarrow>
        e = TypeError \<and> length (rows s) = 8 \<and> children s = [0, 1, 2, 3, 4, 5, 6, 7]
        \<and> contentLength s = Num 80
        \<and> map_option (\<lambda>w. (w_start w, w_end w, w_first w, w_last w)) (window s) = Some (Num 0, Num 25, 0, 2)
    | Inr s \<Rightarrow> False)
   \<and> (case removeRows 2 3 ((uniform_rows 10 10 0 0 25)\<lparr>window := None\<rparr>) of
      Inl (e, s) \<Rightarrow> False
    | Inr s \<Rightarrow>
        map (\<lambda>r. case r of None \<Rightarrow> NaN | Some r \<Rightarrow> r_start r) (rows s)
          = [Num 0, Num 10, Num 40, Num 50, Num 60, Num 50, Num 60, Num 70]
        \<and> children s = [0, 1, 4, 5, 6, 7, 8, 9] \<and> contentLength s = Num 80)"
  by code_simp

section \<open>The cached window size\<close>

lemma jle_jmax_left: "a \<noteq> NaN \<Longrightarrow> b \<noteq> NaN \<Longrightarrow> jle a (jmax a b)"
  by (cases a; cases b) (auto simp: jle_def jmax_def jeq_def)

lemma or0_not_NaN: "x \<noteq> NaN \<Longrightarrow> or0 x = x"
  by (cases x) (simp_all add: or0_def)

lemma jmul_3_NaN: "jmul x (Num 3) = NaN \<longleftrightarrow> x = NaN"
  by (cases x) (simp_all add: jinf_def)

text \<open>
  Where the new screen-item count is a number, a recomputation never lowers the cached
  window size.
\<close>

lemma cachedItemsLen_grows:
  assumes "computeScrollHeight0 s = Inr (sh, s')" and "cachedItemsLen s \<noteq> NaN" and "screenItemsLen s' \<noteq> NaN"
  shows "jle (cachedItemsLen s) (cachedItemsLen s')
       \<and> cachedItemsLen s' = jmax (cachedItemsLen s) (jmul (screenItemsLen s') (Num 3))"
proof -
  from assms(1) have c: "cachedItemsLen s' = jmax (or0 (cachedItemsLen s)) (jmul (screenItemsLen s') (Num 3))"
    by (auto simp: computeScrollHeight0_def Let_def split: option.splits)
  with assms(2,3) show ?thesis
    by (simp add: or0_not_NaN jle_jmax_left jmul_3_NaN)
qed

text \<open>
  Claim C9 says that \<open>_cachedItemsLen\<close> never shrinks over refreshes. With an empty list
  between two refreshes it does. A list of ten rows of height 10 in a container of 100
  caches 30 rows. \<open>refresh({itemCount: 0})\<close> takes the median of an empty array, which is
  \<open>NaN\<close>, so the screen-item count is \<open>NaN\<close> and \<open>Math.max(30, NaN)\<close> stores \<open>NaN\<close>. The next
  refresh, ten rows again in a container of 10, computes \<open>Math.max(NaN || 0, 3)\<close> and
  caches 3 rows.
\<close>

theorem cachedItemsLen_shrinks:
  "cachedItemsLen (built (refresh (Some (container 100 0)) (Some (uniform_options 10 10)) the_new)) = Num 30
   \<and> cachedItemsLen
        (built (refresh None (Some (uniform_options 0 10))
          (built (refresh (Some (container 100 0)) (Some (uniform_options 10 10)) the_new)))) = NaN
   \<and> cachedItemsLen
        (built (refresh (Some (container 10 0)) (Some (uniform_options 10 10))
          (built (refresh None (Some (uniform_options 0 10))
            (built (refresh (Some (container 100 0)) (Some (uniform_options 10 10)) the_new)))))) = Num 3
   \<and> (case refresh (Some (container 100 0)) (Some (uniform_options 10 10)) the_new of
         Inl e \<Rightarrow> False
       | Inr s1 \<Rightarrow>
           (case refresh None (Some (uniform_options 0 10)) s1 of
              Inl e \<Rightarrow> False
            | Inr s2 \<Rightarrow>
                (case refresh (Some (container 10 0)) (Some (uniform_options 10 10)) s2 of
                   Inl e \<Rightarrow> False
                 | Inr s3 \<Rightarrow> True)))"
  by code_simp

section \<open>The tables after a refresh and a row update\<close>

lemma replicate_Num: "replicate n (Num h) = map Num (replicate n h)"
  by simp








section \<open>The full resolve \<open>_renderRows\<close>\<close>








section \<open>Removing and appending rows\<close>

declare remove_nodes.simps [simp del]
declare shift_starts.simps [simp del]










section \<open>The length update\<close>

















section \<open>The prefix sums\<close>














section \<open>The total extent\<close>








section \<open>The incremental tracker and the full resolve\<close>

text \<open>
  Claim C1 says that \<open>_refreshWindow\<close>, run from a valid previous window, ends with the window a
  full resolve by \<open>_renderRows\<close> gives at the same scroll position. On ten rows of length
  10 the two agree for a scroll from 0 to 12 under a viewport of 15, and differ in three
  other runs, each of which leaves a row hidden that overlaps the viewport.

  From 0 to 25 under a viewport of 15: both rows of the previous window are hidden, and
  \<open>_findRow(2, 25, 1)\<close> starts its sum at the start of row 2 and adds the length of row 3
  first, so it returns 3; row 2, which spans 20 to 30, stays hidden, where the full
  resolve has the window from row 2 to row 3.

  From 0 to 10 with a padding of 10 and a viewport of 15: the previous window starts at
  \<open>-10\<close>, as the full resolve does not clamp its bounds; the tracker counts the length of
  row 0 from there, finds it ends at the new start 0 and hides it, where the full resolve
  has row 0 first.

  From 20 back to 16 under a viewport of 25: the last row of the window is unchanged, the
  test \<open>row.start < end\<close> on the first row of the previous window holds, and the tracker
  returns with the previous window, where the full resolve shows row 1, which spans 10 to
  20.
\<close>

theorem refreshWindow_diverges:
  "window_of (uniform_rows 10 10 0 0 15) = Some (Num 0, Num 15, 0, 1)
   \<and> (case (frame (scroll_event 12 (uniform_rows 10 10 0 0 15)),
             renderRows (scroll_event 12 (uniform_rows 10 10 0 0 15))) of
         (Inr t, Inr f) \<Rightarrow>
           window_of t = Some (Num 12, Num 27, 1, 2) \<and> window_of f = Some (Num 12, Num 27, 1, 2)
           \<and> visible_rows t = visible_rows f
       | _ \<Rightarrow> False)
   \<and> (case (frame (scroll_event 25 (uniform_rows 10 10 0 0 15)),
             renderRows (scroll_event 25 (uniform_rows 10 10 0 0 15))) of
         (Inr t, Inr f) \<Rightarrow>
           window_of t = Some (Num 25, Num 40, 3, 3) \<and> window_of f = Some (Num 25, Num 40, 2, 3)
           \<and> visible_rows t = [False, False, False, True, False, False, False, False, False, False]
           \<and> visible_rows f = [False, False, True, True, False, False, False, False, False, False]
       | _ \<Rightarrow> False)
   \<and> window_of (uniform_rows 10 10 10 0 15) = Some (Num (- 10), Num 25, 0, 2)
   \<and> (case (frame (scroll_event 10 (uniform_rows 10 10 10 0 15)),
             renderRows (scroll_event 10 (uniform_rows 10 10 10 0 15))) of
         (Inr t, Inr f) \<Rightarrow>
           window_of t = Some (Num 0, Num 35, 1, 3) \<and> window_of f = Some (Num 0, Num 35, 0, 3)
           \<and> visible_rows t = [False, True, True, True, False, False, False, False, False, False]
           \<and> visible_rows f = [True, True, True, True, False, False, False, False, False, False]
       | _ \<Rightarrow> False)
   \<and> window_of (uniform_rows 10 10 0 20 25) = Some (Num 20, Num 45, 2, 4)
   \<and> (case (frame (scroll_event 16 (uniform_rows 10 10 0 20 25)),
             renderRows (scroll_event 16 (uniform_rows 10 10 0 20 25))) of
         (Inr t, Inr f) \<Rightarrow>
           window_of t = Some (Num 20, Num 45, 2, 4) \<and> window_of f = Some (Num 16, Num 41, 1, 4)
           \<and> visible_rows t = [False, False, True, True, True, False, False, False, False, False]
           \<and> visible_rows f = [False, True, True, True, True, False, False, False, False, False]
       | _ \<Rightarrow> False)"
  by code_simp

end
